theory Spec2Isabelle
  imports Complex_Main
begin

section \<open>History manager (src/utils/history.ts, class HistoryManager)\<close>

text \<open>
  The manager keeps two arrays and the serialisation of the state recorded last.
  Arrays grow at the end (\<open>push\<close>), shrink at the end (\<open>pop\<close>) and lose their oldest
  entry at the front (\<open>shift\<close>). \<open>JSON.stringify\<close> and \<open>JSON.parse\<close> belong to the
  host language; every operation takes them as the parameters \<open>stringify\<close> and
  \<open>parse\<close>, and the snapshot type \<open>'s\<close> (\<open>HistoryState\<close>) stays abstract.
\<close>

record 's HistoryManager =
  undoStack :: "'s list"
  redoStack :: "'s list"
  lastSavedState :: string

definition MAX_HISTORY_SIZE :: nat where
  "MAX_HISTORY_SIZE = 50"

definition newHistoryManager :: "'s HistoryManager" where
  "newHistoryManager = \<lparr>undoStack = [], redoStack = [], lastSavedState = ''''\<rparr>"

definition push :: "('s \<Rightarrow> string) \<Rightarrow> (string \<Rightarrow> 's) \<Rightarrow> 's \<Rightarrow> 's HistoryManager \<Rightarrow> 's HistoryManager" where
  "push stringify parse state h =
     (let stateStr = stringify state in
      if stateStr = lastSavedState h then h
      else
        let pushed = undoStack h @ [parse stateStr] in
        \<lparr>undoStack = (if length pushed > MAX_HISTORY_SIZE then tl pushed else pushed),
         redoStack = [],
         lastSavedState = stateStr\<rparr>)"

definition undo :: "('s \<Rightarrow> string) \<Rightarrow> (string \<Rightarrow> 's) \<Rightarrow> 's \<Rightarrow> 's HistoryManager \<Rightarrow> 's option \<times> 's HistoryManager" where
  "undo stringify parse currentState h =
     (if undoStack h = [] then (None, h)
      else
        let previousState = last (undoStack h) in
        (Some previousState,
         \<lparr>undoStack = butlast (undoStack h),
          redoStack = redoStack h @ [parse (stringify currentState)],
          lastSavedState = stringify previousState\<rparr>))"

definition redo :: "('s \<Rightarrow> string) \<Rightarrow> (string \<Rightarrow> 's) \<Rightarrow> 's \<Rightarrow> 's HistoryManager \<Rightarrow> 's option \<times> 's HistoryManager" where
  "redo stringify parse currentState h =
     (if redoStack h = [] then (None, h)
      else
        let nextState = last (redoStack h) in
        (Some nextState,
         \<lparr>undoStack = undoStack h @ [parse (stringify currentState)],
          redoStack = butlast (redoStack h),
          lastSavedState = stringify nextState\<rparr>))"

definition canUndo :: "'s HistoryManager \<Rightarrow> bool" where
  "canUndo h = (length (undoStack h) > 0)"

definition canRedo :: "'s HistoryManager \<Rightarrow> bool" where
  "canRedo h = (length (redoStack h) > 0)"

definition clear :: "'s HistoryManager \<Rightarrow> 's HistoryManager" where
  "clear h = \<lparr>undoStack = [], redoStack = [], lastSavedState = ''''\<rparr>"

section \<open>Timeline elements\<close>

text \<open>
  Modelled from the spec: the declarations of \<open>types.ts\<close> (\<open>ElementType\<close>,
  \<open>EditorElement\<close>, its transitions and its property bag) are imported by the sources
  but are not among them. The kinds are the six the code names, the transition types
  the nine the specification lists, and the fields are those the code reads. Numbers
  are real numbers; an optional field is an \<open>option\<close>.
\<close>

datatype ElementType = VIDEO | AUDIO | IMAGE | TEXT | SHAPE | AI_GENERATED

datatype TransitionType =
  NoTransition | Fade | Dissolve | ZoomIn | ZoomOut | WipeLeft | WipeRight | WipeUp | WipeDown

record Transition =
  transitionType :: TransitionType
  transitionDuration :: real

record ElementProps =
  volume :: "real option"
  isMuted :: "bool option"
  playbackRate :: "real option"
  highPassFrequency :: "real option"
  lowPassFrequency :: "real option"
  ducking :: "bool option"
  duckingThreshold :: "real option"

record EditorElement =
  elementId :: string
  elementType :: ElementType
  startTime :: real
  duration :: real
  mediaOffset :: real
  posX :: real
  posY :: real
  elWidth :: real
  elHeight :: real
  rotation :: real
  flipX :: "bool option"
  flipY :: "bool option"
  zIndex :: "real option"
  transitionIn :: "Transition option"
  transitionOut :: "Transition option"
  props :: ElementProps

text \<open>The operators of the host language on optional values.\<close>

definition nullish :: "'a option \<Rightarrow> 'a \<Rightarrow> 'a" where
  \<comment> \<open>\<open>v ?? d\<close>\<close>
  "nullish v d = (case v of None \<Rightarrow> d | Some a \<Rightarrow> a)"

definition truthy :: "bool option \<Rightarrow> bool" where
  \<comment> \<open>an optional boolean used as a condition\<close>
  "truthy b = (b = Some True)"

definition orElse :: "real option \<Rightarrow> real \<Rightarrow> real" where
  \<comment> \<open>\<open>v || d\<close> on an optional number: a missing value and 0 both give \<open>d\<close>\<close>
  "orElse v d = (case v of None \<Rightarrow> d | Some a \<Rightarrow> if a = 0 then d else a)"

text \<open>
  The numbers of the host language are IEEE doubles. A comparison and an absolute value
  are exact on them, but a sum or a difference is rounded to the nearest double. Times
  are therefore real numbers (the values of the doubles), and the addition and the
  subtraction that the code applies to times are parameters: \<open>addF ar a b\<close> is the double
  the host computes for \<open>a + b\<close>, and \<open>subF ar a b\<close> the one for \<open>a - b\<close>. Every property
  of the synchronisation and of the window test below holds for any such pair of
  operations. The literal \<open>0.3\<close> of the seek test is the double next to three tenths, and
  no double lies between the two, so a double exceeds the one exactly when it exceeds
  the other.
\<close>

record Arith =
  addF :: "real \<Rightarrow> real \<Rightarrow> real"
  subF :: "real \<Rightarrow> real \<Rightarrow> real"

definition signExact :: "Arith \<Rightarrow> bool" where
  \<comment> \<open>rounding to the nearest double never turns a difference that is not negative
      into a negative one\<close>
  "signExact ar = (\<forall>a b. a \<le> b \<longrightarrow> 0 \<le> subF ar b a)"

definition inWindow :: "Arith \<Rightarrow> real \<Rightarrow> EditorElement \<Rightarrow> bool" where
  \<comment> \<open>\<open>currentTime >= e.startTime && currentTime <= e.startTime + e.duration\<close>\<close>
  "inWindow ar t e = (t \<ge> startTime e \<and> t \<le> addF ar (startTime e) (duration e))"

section \<open>Audio / video synchronisation (the first effect of VideoPreview)\<close>

text \<open>
  A media handle is a DOM \<open>video\<close> or \<open>audio\<close> node: its identity (the key of the
  \<open>WeakMap\<close> of sources), the element id of its \<open>dataset\<close>, and the two fields the effect
  reads. What the effect does to a handle and to the audio graph is returned as a list
  of effects in the order of the code.
\<close>

record MediaHandle =
  handleId :: nat
  datasetElementId :: "string option"
  currentTime :: real
  paused :: bool

datatype Effect =
  SetCurrentTime real
  | Play
  | Pause
  | CreateMediaElementSource nat
  | Warn
  | SetHighPassFrequency real
  | SetLowPassFrequency real
  | SetGain real
  | SetVolume real
  | SetMuted bool
  | SetPlaybackRate real

text \<open>
  The audio context is the browser's: whether \<open>createMediaElementSource\<close> succeeds on a
  handle, and the values with which it creates filter and gain nodes, are its parameters.
  The factories of the filter and gain nodes and \<open>connect\<close> are taken to succeed, so the
  one failure of the \<open>try\<close> block is that of \<open>createMediaElementSource\<close>. The field
  \<open>audioContextRef.current\<close>, after the effect has tried to create it, is the argument
  \<open>ctx\<close> below: \<open>None\<close> where the browser has no audio context.
\<close>

record AudioContext =
  canCreateSource :: "nat \<Rightarrow> bool"
  initialFrequency :: real
  initialGain :: real

record AudioNodes =
  hpFrequency :: real
  lpFrequency :: real
  gainValue :: real

record AudioRefs =
  audioSources :: "nat set"
  audioNodes :: "string \<Rightarrow> AudioNodes option"

definition noAudioRefs :: AudioRefs where
  "noAudioRefs = \<lparr>audioSources = {}, audioNodes = (\<lambda>_. None)\<rparr>"

definition duckingCandidate :: "Arith \<Rightarrow> real \<Rightarrow> EditorElement \<Rightarrow> EditorElement \<Rightarrow> bool" where
  \<comment> \<open>the predicate handed to \<open>elements.find\<close>\<close>
  "duckingCandidate ar t element e =
     (elementId e \<noteq> elementId element
      \<and> (elementType e = VIDEO \<or> elementType e = AUDIO)
      \<and> truthy (ducking (props e))
      \<and> inWindow ar t e)"

definition activeDuckingSource :: "Arith \<Rightarrow> real \<Rightarrow> EditorElement list \<Rightarrow> EditorElement \<Rightarrow> EditorElement option" where
  "activeDuckingSource ar t elements element = find (duckingCandidate ar t element) elements"

definition applyDucking :: "real \<Rightarrow> EditorElement option \<Rightarrow> real" where
  \<comment> \<open>\<open>if (activeDuckingSource) effectiveVolume *= (... .duckingThreshold ?? 0.2)\<close>\<close>
  "applyDucking effectiveVolume src =
     (case src of None \<Rightarrow> effectiveVolume
      | Some d \<Rightarrow> effectiveVolume * nullish (duckingThreshold (props d)) 0.2)"

definition effectiveVolume_webAudio :: "Arith \<Rightarrow> real \<Rightarrow> EditorElement list \<Rightarrow> EditorElement \<Rightarrow> real" where
  "effectiveVolume_webAudio ar t elements element =
     (let v = nullish (volume (props element)) 1;
          v' = (if truthy (isMuted (props element)) then 0 else v)
      in applyDucking v' (activeDuckingSource ar t elements element))"

definition effectiveVolume_fallback :: "Arith \<Rightarrow> real \<Rightarrow> EditorElement list \<Rightarrow> EditorElement \<Rightarrow> real" where
  "effectiveVolume_fallback ar t elements element =
     applyDucking (nullish (volume (props element)) 1) (activeDuckingSource ar t elements element)"

definition attachSource :: "AudioContext \<Rightarrow> MediaHandle \<Rightarrow> string \<Rightarrow> AudioRefs \<Rightarrow> Effect list \<times> AudioRefs" where
  \<comment> \<open>\<open>if (!source) { try { ... } catch (err) { console.warn(...) } }\<close>\<close>
  "attachSource ctx el i refs =
     (if handleId el \<in> audioSources refs then ([], refs)
      else if canCreateSource ctx (handleId el) then
        ([CreateMediaElementSource (handleId el)],
         \<lparr>audioSources = insert (handleId el) (audioSources refs),
          audioNodes = (audioNodes refs)(i \<mapsto>
            \<lparr>hpFrequency = initialFrequency ctx, lpFrequency = initialFrequency ctx,
             gainValue = initialGain ctx\<rparr>)\<rparr>)
      else ([CreateMediaElementSource (handleId el), Warn], refs))"

definition updateNodes :: "Arith \<Rightarrow> real \<Rightarrow> EditorElement list \<Rightarrow> EditorElement \<Rightarrow> string \<Rightarrow> AudioRefs \<Rightarrow> Effect list \<times> AudioRefs" where
  \<comment> \<open>\<open>const nodes = audioNodesRef.current.get(id); if (nodes) { ... }\<close>\<close>
  "updateNodes ar t elements element i refs =
     (case audioNodes refs i of
        None \<Rightarrow> ([], refs)
      | Some nodes \<Rightarrow>
          let hpFreq = orElse (highPassFrequency (props element)) 0;
              lpFreq = orElse (lowPassFrequency (props element)) 20000;
              effectiveVolume = effectiveVolume_webAudio ar t elements element
          in ((if hpFrequency nodes \<noteq> hpFreq then [SetHighPassFrequency hpFreq] else [])
              @ (if lpFrequency nodes \<noteq> lpFreq then [SetLowPassFrequency lpFreq] else [])
              @ [SetGain effectiveVolume],
              refs\<lparr>audioNodes := (audioNodes refs)(i \<mapsto>
                \<lparr>hpFrequency = hpFreq, lpFrequency = lpFreq, gainValue = effectiveVolume\<rparr>)\<rparr>))"

definition audioEffects :: "Arith \<Rightarrow> AudioContext option \<Rightarrow> real \<Rightarrow> EditorElement list \<Rightarrow> EditorElement \<Rightarrow> MediaHandle \<Rightarrow> string \<Rightarrow> AudioRefs \<Rightarrow> Effect list \<times> AudioRefs" where
  \<comment> \<open>\<open>if (ctx) { ... } else { ... }\<close>\<close>
  "audioEffects ar ctx t elements element el i refs =
     (case ctx of
        Some c \<Rightarrow>
          (let (fx1, refs1) = attachSource c el i refs;
               (fx2, refs2) = updateNodes ar t elements element i refs1
           in (fx1 @ fx2, refs2))
      | None \<Rightarrow>
          ([SetVolume (effectiveVolume_fallback ar t elements element),
            SetMuted (nullish (isMuted (props element)) False)], refs))"

definition syncMediaElement :: "Arith \<Rightarrow> AudioContext option \<Rightarrow> real \<Rightarrow> bool \<Rightarrow> EditorElement list \<Rightarrow> MediaHandle \<Rightarrow> AudioRefs \<Rightarrow> Effect list \<times> AudioRefs" where
  \<comment> \<open>the body of \<open>mediaElements.forEach\<close>\<close>
  "syncMediaElement ar ctx t isPlaying elements el refs =
     (case datasetElementId el of
        None \<Rightarrow> ([], refs)
      | Some i \<Rightarrow>
         (case find (\<lambda>e. elementId e = i) elements of
            None \<Rightarrow> ([], refs)
          | Some element \<Rightarrow>
              if inWindow ar t element then
                let targetTime = addF ar (subF ar t (startTime element)) (mediaOffset element);
                    seek = (if \<bar>subF ar (currentTime el) targetTime\<bar> > 0.3
                            then [SetCurrentTime targetTime] else []);
                    playPause = (if isPlaying \<and> paused el then [Play]
                                 else if \<not> isPlaying \<and> \<not> paused el then [Pause] else []);
                    (fx, refs') = audioEffects ar ctx t elements element el i refs
                in (seek @ playPause @ fx
                      @ [SetPlaybackRate (nullish (playbackRate (props element)) 1)], refs')
              else ((if \<not> paused el then [Pause] else []), refs)))"

fun syncAll :: "Arith \<Rightarrow> AudioContext option \<Rightarrow> real \<Rightarrow> bool \<Rightarrow> EditorElement list \<Rightarrow> MediaHandle list \<Rightarrow> AudioRefs \<Rightarrow> (nat \<times> Effect list) list \<times> AudioRefs" where
  "syncAll ar ctx t isPlaying elements [] refs = ([], refs)"
| "syncAll ar ctx t isPlaying elements (el # els) refs =
     (let (fx, refs') = syncMediaElement ar ctx t isPlaying elements el refs;
          (rest, refs'') = syncAll ar ctx t isPlaying elements els refs'
      in ((handleId el, fx) # rest, refs''))"

text \<open>
  The effect runs again whenever the time, the play flag or the elements change; the
  references to the audio graph live across the runs. \<open>syncTicks\<close> follows one handle
  through successive runs, each with its time, its play flag and the handle as the run
  finds it.
\<close>

fun syncTicks :: "Arith \<Rightarrow> AudioContext option \<Rightarrow> EditorElement list \<Rightarrow> (real \<times> bool \<times> MediaHandle) list \<Rightarrow> AudioRefs \<Rightarrow> Effect list list \<times> AudioRefs" where
  "syncTicks ar ctx elements [] refs = ([], refs)"
| "syncTicks ar ctx elements ((t, isPlaying, el) # ticks) refs =
     (let (fx, refs') = syncMediaElement ar ctx t isPlaying elements el refs;
          (rest, refs'') = syncTicks ar ctx elements ticks refs'
      in (fx # rest, refs''))"

text \<open>The seeks among the effects of a run: the values assigned to \<open>el.currentTime\<close>.\<close>

fun seekTargets :: "Effect list \<Rightarrow> real list" where
  "seekTargets [] = []"
| "seekTargets (SetCurrentTime v # fx) = v # seekTargets fx"
| "seekTargets (_ # fx) = seekTargets fx"

section \<open>Drag and resize (handleMouseMove of VideoPreview)\<close>

text \<open>
  Positions and sizes are percentages of the container, pointer positions are pixels.
  The arithmetic is that of the real numbers; for a container of width or height 0 the
  host language divides to \<open>NaN\<close> or an infinity, and the lemmas on the resize assume a
  width other than 0.
\<close>

record InitialElementState =
  initX :: real
  initY :: real
  initW :: real
  initH :: real
  initR :: real

record Rect =
  rectWidth :: real
  rectHeight :: real

record InteractionState =
  isDragging :: bool
  dragOffset :: "real \<times> real"
  isResizing :: bool
  resizeHandle :: "string option"
  initialElementState :: "InitialElementState option"
  startMousePos :: "real \<times> real"
  selectedElementId :: "string option"

text \<open>The argument of \<open>onUpdateElement\<close>: a drag sets \<open>x\<close> and \<open>y\<close>, a resize all four.\<close>

record ElementUpdate =
  updX :: real
  updY :: real
  updWidth :: "real option"
  updHeight :: "real option"

type_synonym geometry = "real \<times> real \<times> real \<times> real"

definition applyXChange :: "Rect \<Rightarrow> real \<Rightarrow> real \<Rightarrow> real \<Rightarrow> bool \<Rightarrow> geometry \<Rightarrow> geometry" where
  "applyXChange rect cs sn amount isLeft = (\<lambda>(newX, newY, newW, newH).
     if isLeft then
       let half = amount / 2;
           dx = - (half * rectWidth rect / 100) * cs;
           dy = - (half * rectWidth rect / 100) * sn
       in (newX + (dx / rectWidth rect) * 100, newY + (dy / rectHeight rect) * 100,
           newW - amount, newH)
     else
       let half = amount / 2;
           dx = (half * rectWidth rect / 100) * cs;
           dy = (half * rectWidth rect / 100) * sn
       in (newX + (dx / rectWidth rect) * 100, newY + (dy / rectHeight rect) * 100,
           newW + amount, newH))"

definition applyYChange :: "Rect \<Rightarrow> real \<Rightarrow> real \<Rightarrow> real \<Rightarrow> bool \<Rightarrow> geometry \<Rightarrow> geometry" where
  "applyYChange rect cs sn amount isTop = (\<lambda>(newX, newY, newW, newH).
     if isTop then
       let half = amount / 2;
           dx = (half * rectHeight rect / 100) * sn;
           dy = - (half * rectHeight rect / 100) * cs
       in (newX + (dx / rectWidth rect) * 100, newY + (dy / rectHeight rect) * 100,
           newW, newH - amount)
     else
       let half = amount / 2;
           dx = - (half * rectHeight rect / 100) * sn;
           dy = (half * rectHeight rect / 100) * cs
       in (newX + (dx / rectWidth rect) * 100, newY + (dy / rectHeight rect) * 100,
           newW, newH + amount))"

definition includesChar :: "string \<Rightarrow> char \<Rightarrow> bool" where
  \<comment> \<open>\<open>resizeHandle.includes('e')\<close> for a one-character argument\<close>
  "includesChar h c = (c \<in> set h)"

definition resizeElement :: "Rect \<Rightarrow> InitialElementState \<Rightarrow> string \<Rightarrow> real \<times> real \<Rightarrow> real \<times> real \<Rightarrow> ElementUpdate" where
  \<comment> \<open>the resize branch; \<open>client\<close> is the pointer position of the event\<close>
  "resizeElement rect ini h startPos client =
     (let deltaX = fst client - fst startPos;
          deltaY = snd client - snd startPos;
          rad = (initR ini * pi) / 180;
          cs = cos rad;
          sn = sin rad;
          localDeltaX = (deltaX * cs) + (deltaY * sn);
          localDeltaY = (deltaY * cs) - (deltaX * sn);
          ldXPercent = (localDeltaX / rectWidth rect) * 100;
          ldYPercent = (localDeltaY / rectHeight rect) * 100;
          g0 = (initX ini, initY ini, initW ini, initH ini);
          g1 = (if includesChar h CHR ''e'' then applyXChange rect cs sn ldXPercent False g0 else g0);
          g2 = (if includesChar h CHR ''w'' then applyXChange rect cs sn ldXPercent True g1 else g1);
          g3 = (if includesChar h CHR ''s'' then applyYChange rect cs sn ldYPercent False g2 else g2);
          g4 = (if includesChar h CHR ''n'' then applyYChange rect cs sn ldYPercent True g3 else g3)
      in case g4 of (newX, newY, newW, newH) \<Rightarrow>
           \<lparr>updX = newX, updY = newY,
            updWidth = Some (max 1 newW), updHeight = Some (max 1 newH)\<rparr>)"

definition dragElement :: "Rect \<Rightarrow> InitialElementState \<Rightarrow> real \<times> real \<Rightarrow> real \<times> real \<Rightarrow> ElementUpdate" where
  "dragElement rect ini offset client =
     (let deltaX = fst client - fst offset;
          deltaY = snd client - snd offset;
          deltaXPercent = (deltaX / rectWidth rect) * 100;
          deltaYPercent = (deltaY / rectHeight rect) * 100
      in \<lparr>updX = initX ini + deltaXPercent, updY = initY ini + deltaYPercent,
          updWidth = None, updHeight = None\<rparr>)"

definition handleMouseMove :: "InteractionState \<Rightarrow> Rect option \<Rightarrow> real \<times> real \<Rightarrow> (string \<times> ElementUpdate) option" where
  \<comment> \<open>\<open>Some (id, updates)\<close> is the call \<open>onUpdateElement(id, updates)\<close>; the container's
      rectangle is \<open>None\<close> while \<open>containerRef.current\<close> is null; an empty string is falsy\<close>
  "handleMouseMove st container client =
     (case (container, selectedElementId st, initialElementState st) of
        (Some rect, Some sel, Some ini) \<Rightarrow>
          if sel = [] then None
          else if isDragging st then Some (sel, dragElement rect ini (dragOffset st) client)
          else if isResizing st then
            (case resizeHandle st of
               None \<Rightarrow> None
             | Some h \<Rightarrow> if h = [] then None
                         else Some (sel, resizeElement rect ini h (startMousePos st) client))
          else None
      | _ \<Rightarrow> None)"

definition handleResizeMouseDown :: "string \<Rightarrow> EditorElement \<Rightarrow> real \<times> real \<Rightarrow> InteractionState \<Rightarrow> InteractionState" where
  "handleResizeMouseDown h element client st =
     st\<lparr>isResizing := True, resizeHandle := Some h, startMousePos := client,
        initialElementState := Some \<lparr>initX = posX element, initY = posY element,
          initW = elWidth element, initH = elHeight element, initR = rotation element\<rparr>\<rparr>"

definition applyUpdate :: "ElementUpdate \<Rightarrow> EditorElement \<Rightarrow> EditorElement" where
  \<comment> \<open>the merge \<open>{...element, ...updates}\<close> that \<open>onUpdateElement\<close> asks of its owner\<close>
  "applyUpdate u e =
     e\<lparr>posX := updX u, posY := updY u,
       elWidth := nullish (updWidth u) (elWidth e),
       elHeight := nullish (updHeight u) (elHeight e)\<rparr>"

section \<open>Rendering (renderVisualElement of VideoPreview)\<close>

text \<open>
  The transform of a transition is one of three CSS functions or the empty string; the
  argument is the number the template string interpolates (a percentage for the
  translations).
\<close>

datatype Transform = EmptyTransform | Scale real | TranslateX real | TranslateY real

type_synonym transitionState = "real \<times> Transform"

definition applyTransitionIn :: "EditorElement \<Rightarrow> real \<Rightarrow> transitionState \<Rightarrow> transitionState" where
  "applyTransitionIn el elapsedTime = (\<lambda>(transitionOpacity, transitionTransform).
     case transitionIn el of
       None \<Rightarrow> (transitionOpacity, transitionTransform)
     | Some tr \<Rightarrow>
         if transitionType tr \<noteq> NoTransition \<and> elapsedTime < transitionDuration tr then
           let progress = elapsedTime / transitionDuration tr in
           (case transitionType tr of
              Fade \<Rightarrow> (progress, transitionTransform)
            | Dissolve \<Rightarrow> (progress, transitionTransform)
            | ZoomIn \<Rightarrow> (progress, Scale (0.5 + 0.5 * progress))
            | ZoomOut \<Rightarrow> (progress, Scale (1.5 - 0.5 * progress))
            | WipeLeft \<Rightarrow> (transitionOpacity, TranslateX ((1 - progress) * 100))
            | WipeRight \<Rightarrow> (transitionOpacity, TranslateX ((progress - 1) * 100))
            | WipeUp \<Rightarrow> (transitionOpacity, TranslateY ((1 - progress) * 100))
            | WipeDown \<Rightarrow> (transitionOpacity, TranslateY ((progress - 1) * 100))
            | NoTransition \<Rightarrow> (transitionOpacity, transitionTransform))
         else (transitionOpacity, transitionTransform))"

definition applyTransitionOut :: "EditorElement \<Rightarrow> real \<Rightarrow> transitionState \<Rightarrow> transitionState" where
  "applyTransitionOut el remainingTime = (\<lambda>(transitionOpacity, transitionTransform).
     case transitionOut el of
       None \<Rightarrow> (transitionOpacity, transitionTransform)
     | Some tr \<Rightarrow>
         if transitionType tr \<noteq> NoTransition \<and> remainingTime < transitionDuration tr then
           let progress = remainingTime / transitionDuration tr in
           (case transitionType tr of
              Fade \<Rightarrow> (min transitionOpacity progress, transitionTransform)
            | Dissolve \<Rightarrow> (min transitionOpacity progress, transitionTransform)
            | ZoomIn \<Rightarrow> (min transitionOpacity progress, Scale (1.5 - 0.5 * progress))
            | ZoomOut \<Rightarrow> (min transitionOpacity progress, Scale (0.5 + 0.5 * progress))
            | WipeLeft \<Rightarrow> (transitionOpacity, TranslateX ((progress - 1) * 100))
            | WipeRight \<Rightarrow> (transitionOpacity, TranslateX ((1 - progress) * 100))
            | WipeUp \<Rightarrow> (transitionOpacity, TranslateY ((progress - 1) * 100))
            | WipeDown \<Rightarrow> (transitionOpacity, TranslateY ((1 - progress) * 100))
            | NoTransition \<Rightarrow> (transitionOpacity, transitionTransform))
         else (transitionOpacity, transitionTransform))"

text \<open>The outer \<open>style\<close> of the rendered element, with the element's id as its key.\<close>

record RenderDescriptor =
  key :: string
  styleLeft :: real
  styleTop :: real
  styleWidth :: real
  styleHeight :: real
  styleRotate :: real
  styleTransition :: Transform
  styleScaleX :: bool
  styleScaleY :: bool
  styleZIndex :: real
  styleSelected :: bool
  styleOpacity :: real

definition renderVisualElement :: "Arith \<Rightarrow> real \<Rightarrow> string option \<Rightarrow> EditorElement \<Rightarrow> RenderDescriptor option" where
  "renderVisualElement ar t selected el =
     (if t < startTime el \<or> t > addF ar (startTime el) (duration el) then None
      else if elementType el = AUDIO then None
      else
        let isSelected = (selected = Some (elementId el));
            elapsedTime = subF ar t (startTime el);
            remainingTime = subF ar (addF ar (startTime el) (duration el)) t;
            (transitionOpacity, transitionTransform) =
               applyTransitionOut el remainingTime
                 (applyTransitionIn el elapsedTime (1, EmptyTransform))
        in Some \<lparr>key = elementId el,
                 styleLeft = posX el, styleTop = posY el,
                 styleWidth = elWidth el, styleHeight = elHeight el,
                 styleRotate = rotation el,
                 styleTransition = transitionTransform,
                 styleScaleX = truthy (flipX el), styleScaleY = truthy (flipY el),
                 styleZIndex = 10 + nullish (zIndex el) 0,
                 styleSelected = isSelected,
                 styleOpacity = transitionOpacity\<rparr>)"

definition renderFrame :: "Arith \<Rightarrow> real \<Rightarrow> string option \<Rightarrow> EditorElement list \<Rightarrow> RenderDescriptor list" where
  \<comment> \<open>\<open>[...elements].sort(by zIndex ?? 0).map(renderVisualElement)\<close>; a \<open>null\<close> renders nothing\<close>
  "renderFrame ar t selected elements =
     List.map_filter (renderVisualElement ar t selected)
       (sort_key (\<lambda>e. nullish (zIndex e) 0) elements)"

section \<open>Example inputs\<close>

definition exactArith :: Arith where
  \<comment> \<open>arithmetic without rounding: it is the host's wherever the exact sum or difference
      of two doubles is a double, as it is at the inputs of the examples below\<close>
  "exactArith = \<lparr>addF = (+), subF = (-)\<rparr>"

text \<open>
  Two snapshots that differ in one number, \<open>NaN\<close> in the first and \<open>null\<close> in the second.
  \<open>JSON.stringify\<close> writes \<open>NaN\<close> as \<open>null\<close>, so both have the same text (written here
  without the quotes of its keys), and \<open>JSON.parse\<close> of that text gives the second.
\<close>

datatype ExampleSnapshot = ElementAtNaN | ElementAtNull

definition stringifyExample :: "ExampleSnapshot \<Rightarrow> string" where
  "stringifyExample s = ''{elements:[{x:null}],tracks:[],markers:[]}''"

definition parseExample :: "string \<Rightarrow> ExampleSnapshot" where
  "parseExample str = ElementAtNull"

definition noProps :: ElementProps where
  "noProps = \<lparr>volume = None, isMuted = None, playbackRate = None,
     highPassFrequency = None, lowPassFrequency = None,
     ducking = None, duckingThreshold = None\<rparr>"

definition clip :: "string \<Rightarrow> ElementType \<Rightarrow> real \<Rightarrow> real \<Rightarrow> EditorElement" where
  \<comment> \<open>an element of the given id, kind, start and duration, everything else at rest\<close>
  "clip i k start len =
     \<lparr>elementId = i, elementType = k, startTime = start, duration = len, mediaOffset = 0,
      posX = 10, posY = 10, elWidth = 20, elHeight = 20, rotation = 0,
      flipX = None, flipY = None, zIndex = None,
      transitionIn = None, transitionOut = None, props = noProps\<rparr>"

definition handleOf :: "nat \<Rightarrow> string \<Rightarrow> real \<Rightarrow> bool \<Rightarrow> MediaHandle" where
  "handleOf n i pos isPaused =
     \<lparr>handleId = n, datasetElementId = Some i, currentTime = pos, paused = isPaused\<rparr>"

definition deafContext :: AudioContext where
  \<comment> \<open>a context on which \<open>createMediaElementSource\<close> always throws\<close>
  "deafContext = \<lparr>canCreateSource = (\<lambda>_. False), initialFrequency = 350, initialGain = 1\<rparr>"

definition workingContext :: AudioContext where
  "workingContext = \<lparr>canCreateSource = (\<lambda>_. True), initialFrequency = 350, initialGain = 1\<rparr>"

definition ducker :: "string \<Rightarrow> ElementType \<Rightarrow> real option \<Rightarrow> EditorElement" where
  \<comment> \<open>a clip over \<open>[0, 10]\<close> that ducks the others, with the given threshold\<close>
  "ducker i k threshold =
     (clip i k 0 10)\<lparr>props := noProps\<lparr>ducking := Some True, duckingThreshold := threshold\<rparr>\<rparr>"

definition mutedClip :: "string \<Rightarrow> ElementType \<Rightarrow> EditorElement" where
  "mutedClip i k = (clip i k 0 10)\<lparr>props := noProps\<lparr>isMuted := Some True\<rparr>\<rparr>"

definition overlapClip :: "TransitionType \<Rightarrow> TransitionType \<Rightarrow> EditorElement" where
  \<comment> \<open>an image of 4 seconds whose two transitions of 10 seconds overlap throughout\<close>
  "overlapClip tin tout =
     (clip ''o'' IMAGE 0 4)
       \<lparr>transitionIn := Some \<lparr>transitionType = tin, transitionDuration = 10\<rparr>,
        transitionOut := Some \<lparr>transitionType = tout, transitionDuration = 10\<rparr>\<rparr>"

definition westResize :: InteractionState where
  \<comment> \<open>the west handle of the selected clip \<open>v\<close> pressed at the pointer position \<open>(0, 0)\<close>\<close>
  "westResize =
     handleResizeMouseDown ''w'' (clip ''v'' VIDEO 0 10) (0, 0)
       \<lparr>isDragging = False, dragOffset = (0, 0), isResizing = False, resizeHandle = None,
        initialElementState = None, startMousePos = (0, 0), selectedElementId = Some ''v''\<rparr>"

section \<open>Properties of the history manager\<close>

lemma push_same_fingerprint:
  "stringify s = lastSavedState h \<Longrightarrow> push stringify parse s h = h"
  by (simp add: push_def)

lemma push_sets_fingerprint:
  "lastSavedState (push stringify parse s h) = stringify s"
  by (simp add: push_def Let_def)

lemma push_length_below_capacity:
  assumes "stringify s \<noteq> lastSavedState h" and "length (undoStack h) < MAX_HISTORY_SIZE"
  shows "length (undoStack (push stringify parse s h)) = Suc (length (undoStack h))"
  using assms by (simp add: push_def Let_def MAX_HISTORY_SIZE_def)

lemma push_at_capacity_keeps_depth:
  assumes "stringify s \<noteq> lastSavedState h" and "length (undoStack h) = MAX_HISTORY_SIZE"
  shows "length (undoStack (push stringify parse s h)) = MAX_HISTORY_SIZE"
  using assms by (simp add: push_def Let_def MAX_HISTORY_SIZE_def)

text \<open>
  C8 (as amended). Pushing the same state twice in a row leaves the manager exactly as
  one push leaves it: the second push finds its own fingerprint and returns. The undo
  stack is one entry deeper than before the first call when the state differs from the
  fingerprint recorded before and the stack was below its capacity of 50.
\<close>

theorem push_twice_is_push_once:
  "push stringify parse s (push stringify parse s h) = push stringify parse s h
   \<and> (stringify s \<noteq> lastSavedState h \<and> length (undoStack h) < MAX_HISTORY_SIZE
      \<longrightarrow> length (undoStack (push stringify parse s (push stringify parse s h)))
          = Suc (length (undoStack h)))"
proof -
  have once: "push stringify parse s (push stringify parse s h) = push stringify parse s h"
    by (rule push_same_fingerprint) (simp add: push_sets_fingerprint)
  show ?thesis
    unfolding once using push_length_below_capacity [of stringify s h parse] by simp
qed

theorem push_twice_is_push_once_witness:
  "push (\<lambda>s. s) (\<lambda>s. s) ''{}'' (push (\<lambda>s. s) (\<lambda>s. s) ''{}'' newHistoryManager)
     = push (\<lambda>s. s) (\<lambda>s. s) ''{}'' newHistoryManager
   \<and> ''{}'' \<noteq> lastSavedState (newHistoryManager :: string HistoryManager)
   \<and> length (undoStack (newHistoryManager :: string HistoryManager)) < MAX_HISTORY_SIZE
   \<and> length (undoStack (push (\<lambda>s. s) (\<lambda>s. s) ''{}''
        (push (\<lambda>s. s) (\<lambda>s. s) ''{}'' newHistoryManager))) = 1"
  using push_twice_is_push_once [of "\<lambda>s. s" "\<lambda>s. s" "''{}''" newHistoryManager]
  by (simp add: push_def Let_def newHistoryManager_def MAX_HISTORY_SIZE_def)

text \<open>
  C8 as the specification states it fails: when the manager already holds the
  fingerprint of the state (here after one earlier push), two further pushes leave the
  undo stack at the depth it had, not one deeper.
\<close>

theorem push_twice_depth_counterexample:
  "length (undoStack (push (\<lambda>s. s) (\<lambda>s. s) ''{}'' (push (\<lambda>s. s) (\<lambda>s. s) ''{}''
      \<lparr>undoStack = [''{}''], redoStack = [], lastSavedState = ''{}''\<rparr>)))
   \<noteq> Suc (length (undoStack
      \<lparr>undoStack = [''{}''], redoStack = [], lastSavedState = ''{}''\<rparr>))"
  by (simp add: push_def Let_def)

text \<open>
  C9 (as amended). With a non-empty undo stack, \<open>undo\<close> of the current state returns a
  snapshot, and \<open>redo\<close> of that snapshot returns the clone \<open>JSON.parse(JSON.stringify(c))\<close>
  of the current state that \<open>undo\<close> stored. The clone is the current state itself
  whenever the JSON round trip preserves that state.
\<close>

theorem undo_redo_round_trip:
  assumes "undoStack h \<noteq> []"
  shows "\<exists>r h' h''. undo stringify parse c h = (Some r, h')
           \<and> redo stringify parse r h' = (Some (parse (stringify c)), h'')
           \<and> (parse (stringify c) = c \<longrightarrow> redo stringify parse r h' = (Some c, h''))"
  using assms by (simp add: undo_def redo_def Let_def)

theorem undo_redo_round_trip_witness:
  "undoStack \<lparr>undoStack = [''a''], redoStack = [], lastSavedState = ''a''\<rparr> \<noteq> []
   \<and> (\<lambda>s. s) ((\<lambda>s. s) ''b'') = ''b''
   \<and> (\<exists>r h' h''. undo (\<lambda>s. s) (\<lambda>s. s) ''b''
          \<lparr>undoStack = [''a''], redoStack = [], lastSavedState = ''a''\<rparr> = (Some r, h')
        \<and> redo (\<lambda>s. s) (\<lambda>s. s) r h' = (Some ''b'', h''))"
proof -
  have h: "undoStack \<lparr>undoStack = [''a''], redoStack = [], lastSavedState = ''a''\<rparr> \<noteq> []"
    by simp
  from undo_redo_round_trip [OF h, of "\<lambda>s. s" "\<lambda>s. s" "''b''"] h
  show ?thesis by simp
qed

text \<open>
  C9 as the specification states it fails for a state that the JSON round trip does not
  preserve. With one snapshot on the undo stack, \<open>undo\<close> of a current state that holds
  \<open>NaN\<close> returns that snapshot, and \<open>redo\<close> of it returns the state with \<open>null\<close> in the
  place of \<open>NaN\<close>.
\<close>

theorem undo_redo_round_trip_counterexample:
  "undo stringifyExample parseExample ElementAtNaN
       \<lparr>undoStack = [ElementAtNull], redoStack = [],
        lastSavedState = stringifyExample ElementAtNull\<rparr>
     = (Some ElementAtNull,
        \<lparr>undoStack = [], redoStack = [ElementAtNull],
         lastSavedState = stringifyExample ElementAtNull\<rparr>)
   \<and> fst (redo stringifyExample parseExample ElementAtNull
       \<lparr>undoStack = [], redoStack = [ElementAtNull],
        lastSavedState = stringifyExample ElementAtNull\<rparr>) = Some ElementAtNull
   \<and> ElementAtNull \<noteq> ElementAtNaN"
  by (simp add: undo_def redo_def parseExample_def Let_def)

section \<open>Properties of the synchronisation\<close>

text \<open>
  A handle whose element is found runs one of two branches, decided by the window.
\<close>

lemma sync_inactive:
  assumes "datasetElementId el = Some i"
    and "find (\<lambda>e. elementId e = i) elements = Some element"
    and "\<not> inWindow ar t element"
  shows "syncMediaElement ar ctx t isPlaying elements el refs
           = ((if \<not> paused el then [Pause] else []), refs)"
  using assms by (simp add: syncMediaElement_def)

lemma sync_active:
  assumes "datasetElementId el = Some i"
    and "find (\<lambda>e. elementId e = i) elements = Some element"
    and "inWindow ar t element"
  shows "syncMediaElement ar ctx t isPlaying elements el refs
           = ((if \<bar>subF ar (currentTime el)
                      (addF ar (subF ar t (startTime element)) (mediaOffset element))\<bar> > 0.3
               then [SetCurrentTime (addF ar (subF ar t (startTime element)) (mediaOffset element))]
               else [])
              @ (if isPlaying \<and> paused el then [Play]
                 else if \<not> isPlaying \<and> \<not> paused el then [Pause] else [])
              @ fst (audioEffects ar ctx t elements element el i refs)
              @ [SetPlaybackRate (nullish (playbackRate (props element)) 1)],
              snd (audioEffects ar ctx t elements element el i refs))"
  using assms by (simp add: syncMediaElement_def Let_def split: prod.splits)

lemma audioEffects_fallback:
  "audioEffects ar None t elements element el i refs
     = ([SetVolume (effectiveVolume_fallback ar t elements element),
         SetMuted (nullish (isMuted (props element)) False)], refs)"
  by (simp add: audioEffects_def)

lemma audioEffects_graph:
  "audioEffects ar (Some c) t elements element el i refs
     = (fst (attachSource c el i refs)
          @ fst (updateNodes ar t elements element i (snd (attachSource c el i refs))),
        snd (updateNodes ar t elements element i (snd (attachSource c el i refs))))"
  by (simp add: audioEffects_def split: prod.splits)

lemma attachSource_effects:
  "fst (attachSource c el i refs)
     = (if handleId el \<in> audioSources refs then []
        else if canCreateSource c (handleId el) then [CreateMediaElementSource (handleId el)]
        else [CreateMediaElementSource (handleId el), Warn])"
  by (simp add: attachSource_def)

lemma attachSource_failure:
  "handleId el \<notin> audioSources refs \<Longrightarrow> \<not> canCreateSource c (handleId el)
     \<Longrightarrow> attachSource c el i refs = ([CreateMediaElementSource (handleId el), Warn], refs)"
  by (simp add: attachSource_def)

lemma attachSource_nodes:
  "audioNodes (snd (attachSource c el i refs)) i \<noteq> None
     \<longleftrightarrow> audioNodes refs i \<noteq> None
          \<or> (handleId el \<notin> audioSources refs \<and> canCreateSource c (handleId el))"
  by (simp add: attachSource_def)

lemma updateNodes_effects:
  "x \<in> set (fst (updateNodes ar t elements element i refs))
     \<Longrightarrow> x = SetGain (effectiveVolume_webAudio ar t elements element)
         \<or> x = SetHighPassFrequency (orElse (highPassFrequency (props element)) 0)
         \<or> x = SetLowPassFrequency (orElse (lowPassFrequency (props element)) 20000)"
  by (auto simp: updateNodes_def Let_def split: option.splits if_splits)

lemma updateNodes_gain:
  "SetGain (effectiveVolume_webAudio ar t elements element)
       \<in> set (fst (updateNodes ar t elements element i refs))
     \<longleftrightarrow> audioNodes refs i \<noteq> None"
  by (auto simp: updateNodes_def Let_def split: option.splits)

lemma updateNodes_sources:
  "audioSources (snd (updateNodes ar t elements element i refs)) = audioSources refs"
  by (simp add: updateNodes_def Let_def split: option.splits)

lemma seekTargets_append: "seekTargets (xs @ ys) = seekTargets xs @ seekTargets ys"
  by (induction xs rule: seekTargets.induct) simp_all

lemma seekTargets_attachSource: "seekTargets (fst (attachSource c el i refs)) = []"
  by (simp add: attachSource_def)

lemma seekTargets_updateNodes: "seekTargets (fst (updateNodes ar t elements element i refs)) = []"
  by (simp add: updateNodes_def Let_def seekTargets_append split: option.splits)

lemma seekTargets_audioEffects:
  "seekTargets (fst (audioEffects ar ctx t elements element el i refs)) = []"
proof (cases ctx)
  case None
  then show ?thesis by (simp add: audioEffects_fallback)
next
  case (Some c)
  then show ?thesis
    by (simp add: audioEffects_graph seekTargets_append seekTargets_attachSource
          seekTargets_updateNodes)
qed

text \<open>
  C5. An element is treated as active exactly when
  \<open>startTime \<le> t \<le> startTime + duration\<close>, the sum being the one the host computes.
  Inside the window the run is the whole reconciliation: the seek when the handle has
  drifted, play or pause after the play flag, the audio effects and the playback rate.
  Outside the window the run does nothing but pause a handle that is playing, and
  leaves the audio graph as it was. So a rate is written exactly inside the window, and
  a seek or a play occurs only there.
\<close>

theorem active_window_decides_reconciliation:
  assumes "datasetElementId el = Some i"
    and "find (\<lambda>e. elementId e = i) elements = Some element"
  shows "(startTime element \<le> t \<and> t \<le> addF ar (startTime element) (duration element)
            \<longrightarrow> syncMediaElement ar ctx t isPlaying elements el refs
                  = ((if \<bar>subF ar (currentTime el)
                             (addF ar (subF ar t (startTime element)) (mediaOffset element))\<bar> > 0.3
                      then [SetCurrentTime
                              (addF ar (subF ar t (startTime element)) (mediaOffset element))]
                      else [])
                     @ (if isPlaying \<and> paused el then [Play]
                        else if \<not> isPlaying \<and> \<not> paused el then [Pause] else [])
                     @ fst (audioEffects ar ctx t elements element el i refs)
                     @ [SetPlaybackRate (nullish (playbackRate (props element)) 1)],
                     snd (audioEffects ar ctx t elements element el i refs)))
       \<and> (\<not> (startTime element \<le> t \<and> t \<le> addF ar (startTime element) (duration element))
            \<longrightarrow> syncMediaElement ar ctx t isPlaying elements el refs
                  = ((if paused el then [] else [Pause]), refs))
       \<and> ((\<exists>r. SetPlaybackRate r \<in> set (fst (syncMediaElement ar ctx t isPlaying elements el refs)))
            \<longleftrightarrow> startTime element \<le> t \<and> t \<le> addF ar (startTime element) (duration element))
       \<and> (seekTargets (fst (syncMediaElement ar ctx t isPlaying elements el refs)) \<noteq> []
            \<or> Play \<in> set (fst (syncMediaElement ar ctx t isPlaying elements el refs))
            \<longrightarrow> startTime element \<le> t \<and> t \<le> addF ar (startTime element) (duration element))"
proof (cases "inWindow ar t element")
  case True
  then have w: "startTime element \<le> t \<and> t \<le> addF ar (startTime element) (duration element)"
    by (simp add: inWindow_def)
  have rate: "\<exists>r. SetPlaybackRate r \<in> set (fst (syncMediaElement ar ctx t isPlaying elements el refs))"
    by (auto simp: sync_active [OF assms True])
  from w rate sync_active [OF assms True, of ctx isPlaying refs] show ?thesis by simp
next
  case False
  then have w: "\<not> (startTime element \<le> t \<and> t \<le> addF ar (startTime element) (duration element))"
    by (simp add: inWindow_def)
  have run: "syncMediaElement ar ctx t isPlaying elements el refs
               = ((if paused el then [] else [Pause]), refs)"
    by (simp add: sync_inactive [OF assms False])
  from w show ?thesis unfolding run by simp
qed

text \<open>
  At time 5 a clip over \<open>[0, 10]\<close> whose paused handle stands at 3 is reconciled in full
  while the timeline plays; at time 11 its playing handle is only paused.
\<close>

theorem active_window_decides_reconciliation_witness:
  "datasetElementId (handleOf 7 ''v'' 3 True) = Some ''v''
   \<and> datasetElementId (handleOf 7 ''v'' 3 False) = Some ''v''
   \<and> find (\<lambda>e. elementId e = ''v'') [clip ''v'' VIDEO 0 10] = Some (clip ''v'' VIDEO 0 10)
   \<and> startTime (clip ''v'' VIDEO 0 10) \<le> 5
   \<and> 5 \<le> addF exactArith (startTime (clip ''v'' VIDEO 0 10)) (duration (clip ''v'' VIDEO 0 10))
   \<and> syncMediaElement exactArith None 5 True [clip ''v'' VIDEO 0 10]
         (handleOf 7 ''v'' 3 True) noAudioRefs
       = ([SetCurrentTime 5, Play, SetVolume 1, SetMuted False, SetPlaybackRate 1], noAudioRefs)
   \<and> \<not> 11 \<le> addF exactArith (startTime (clip ''v'' VIDEO 0 10)) (duration (clip ''v'' VIDEO 0 10))
   \<and> syncMediaElement exactArith None 11 True [clip ''v'' VIDEO 0 10]
         (handleOf 7 ''v'' 3 False) noAudioRefs
       = ([Pause], noAudioRefs)"
proof -
  let ?e = "clip ''v'' VIDEO 0 10"
  have h1: "datasetElementId (handleOf 7 ''v'' 3 True) = Some ''v''"
    and h1': "datasetElementId (handleOf 7 ''v'' 3 False) = Some ''v''"
    by (simp_all add: handleOf_def)
  have h2: "find (\<lambda>e. elementId e = ''v'') [?e] = Some ?e"
    by (simp add: clip_def)
  have inside: "startTime ?e \<le> 5 \<and> 5 \<le> addF exactArith (startTime ?e) (duration ?e)"
    by (simp add: clip_def exactArith_def)
  have outside: "\<not> 11 \<le> addF exactArith (startTime ?e) (duration ?e)"
    by (simp add: clip_def exactArith_def)
  have fx: "audioEffects exactArith None 5 [?e] ?e (handleOf 7 ''v'' 3 True) ''v'' noAudioRefs
              = ([SetVolume 1, SetMuted False], noAudioRefs)"
    by (simp add: audioEffects_fallback effectiveVolume_fallback_def applyDucking_def
          activeDuckingSource_def duckingCandidate_def clip_def noProps_def nullish_def)
  have active: "syncMediaElement exactArith None 5 True [?e] (handleOf 7 ''v'' 3 True) noAudioRefs
       = ([SetCurrentTime 5, Play, SetVolume 1, SetMuted False, SetPlaybackRate 1], noAudioRefs)"
    using active_window_decides_reconciliation [OF h1 h2, where ar = exactArith and t = 5
        and ctx = None and isPlaying = True and refs = noAudioRefs] inside fx
    by (simp add: exactArith_def clip_def handleOf_def noProps_def nullish_def)
  have inactive: "syncMediaElement exactArith None 11 True [?e] (handleOf 7 ''v'' 3 False) noAudioRefs
       = ([Pause], noAudioRefs)"
    using active_window_decides_reconciliation [OF h1' h2, where ar = exactArith and t = 11
        and ctx = None and isPlaying = True and refs = noAudioRefs] outside
    by (simp add: exactArith_def clip_def handleOf_def)
  from h1 h1' h2 inside outside active inactive show ?thesis by simp
qed

text \<open>
  C6. For an active element the run assigns \<open>currentTime\<close> exactly when the handle is
  more than 0.3 seconds from the target \<open>(t - startTime) + mediaOffset\<close>, once, and to the
  target. The target and the distance are the numbers the host computes.
\<close>

theorem seek_iff_drift_exceeds_threshold:
  assumes "datasetElementId el = Some i"
    and "find (\<lambda>e. elementId e = i) elements = Some element"
    and "startTime element \<le> t"
    and "t \<le> addF ar (startTime element) (duration element)"
  shows "seekTargets (fst (syncMediaElement ar ctx t isPlaying elements el refs))
           = (if \<bar>subF ar (currentTime el)
                     (addF ar (subF ar t (startTime element)) (mediaOffset element))\<bar> > 0.3
              then [addF ar (subF ar t (startTime element)) (mediaOffset element)] else [])"
proof -
  from assms(3,4) have w: "inWindow ar t element"
    by (simp add: inWindow_def)
  show ?thesis
    by (simp add: sync_active [OF assms(1,2) w] seekTargets_append seekTargets_audioEffects)
qed

text \<open>
  At time 0 the target of a clip that starts at 0 is 0, and the distance of a handle is
  its own position, without rounding. A handle at 0.31 is sought back once; a handle at
  exactly 0.3 is left alone. (The doubles that the literals 0.31 and 0.3 denote compare
  with the threshold as the decimals do.)
\<close>

theorem seek_iff_drift_exceeds_threshold_witness:
  "datasetElementId (handleOf 7 ''v'' 0.31 False) = Some ''v''
   \<and> find (\<lambda>e. elementId e = ''v'') [clip ''v'' VIDEO 0 10] = Some (clip ''v'' VIDEO 0 10)
   \<and> startTime (clip ''v'' VIDEO 0 10) \<le> 0
   \<and> 0 \<le> addF exactArith (startTime (clip ''v'' VIDEO 0 10)) (duration (clip ''v'' VIDEO 0 10))
   \<and> seekTargets (fst (syncMediaElement exactArith None 0 True [clip ''v'' VIDEO 0 10]
        (handleOf 7 ''v'' 0.31 False) noAudioRefs)) = [0]"
proof -
  let ?e = "clip ''v'' VIDEO 0 10"
  have h1: "datasetElementId (handleOf 7 ''v'' 0.31 False) = Some ''v''"
    by (simp add: handleOf_def)
  have h2: "find (\<lambda>e. elementId e = ''v'') [?e] = Some ?e"
    by (simp add: clip_def)
  have h3: "startTime ?e \<le> 0"
    by (simp add: clip_def)
  have h4: "0 \<le> addF exactArith (startTime ?e) (duration ?e)"
    by (simp add: clip_def exactArith_def)
  have "seekTargets (fst (syncMediaElement exactArith None 0 True [?e]
        (handleOf 7 ''v'' 0.31 False) noAudioRefs)) = [0]"
    using seek_iff_drift_exceeds_threshold [OF h1 h2 h3 h4, where ctx = None
        and isPlaying = True and refs = noAudioRefs]
    by (simp add: clip_def handleOf_def exactArith_def)
  with h1 h2 h3 h4 show ?thesis by simp
qed

lemma no_seek_at_drift_of_exactly_threshold:
  "seekTargets (fst (syncMediaElement exactArith None 0 True [clip ''v'' VIDEO 0 10]
        (handleOf 7 ''v'' 0.3 False) noAudioRefs)) = []"
  by (simp add: syncMediaElement_def clip_def handleOf_def inWindow_def audioEffects_def
        exactArith_def Let_def)

subsection \<open>Volume and ducking\<close>

lemma webAudio_volume_is_muted_fallback:
  "effectiveVolume_webAudio ar t elements element
     = (if truthy (isMuted (props element)) then 0
        else effectiveVolume_fallback ar t elements element)"
  by (simp add: effectiveVolume_webAudio_def effectiveVolume_fallback_def applyDucking_def
        Let_def split: option.splits)

text \<open>
  C2 (as amended). Both paths start from \<open>volume ?? 1\<close> and apply the same ducking. The
  fallback writes that value to the handle's volume and the mute flag to the handle's
  \<open>muted\<close>; the graph path writes to the gain node, when the element has nodes, the same
  value for an element that is not muted and 0 for a muted one.
\<close>

theorem volume_written_by_both_paths:
  assumes "datasetElementId el = Some i"
    and "find (\<lambda>e. elementId e = i) elements = Some element"
    and "inWindow ar t element"
  shows "(\<forall>v. SetVolume v \<in> set (fst (syncMediaElement ar None t isPlaying elements el refs))
              \<longleftrightarrow> v = effectiveVolume_fallback ar t elements element)
       \<and> (\<forall>m. SetMuted m \<in> set (fst (syncMediaElement ar None t isPlaying elements el refs))
              \<longleftrightarrow> m = nullish (isMuted (props element)) False)
       \<and> (\<forall>v. SetGain v \<in> set (fst (syncMediaElement ar (Some c) t isPlaying elements el refs))
              \<longrightarrow> v = effectiveVolume_webAudio ar t elements element)
       \<and> (SetGain (effectiveVolume_webAudio ar t elements element)
              \<in> set (fst (syncMediaElement ar (Some c) t isPlaying elements el refs))
            \<longleftrightarrow> audioNodes refs i \<noteq> None
                 \<or> (handleId el \<notin> audioSources refs \<and> canCreateSource c (handleId el)))
       \<and> effectiveVolume_webAudio ar t elements element
            = (if truthy (isMuted (props element)) then 0
               else effectiveVolume_fallback ar t elements element)"
proof -
  let ?fb = "fst (syncMediaElement ar None t isPlaying elements el refs)"
  let ?gr = "fst (syncMediaElement ar (Some c) t isPlaying elements el refs)"
  have fb: "\<And>v. SetVolume v \<in> set ?fb \<longleftrightarrow> v = effectiveVolume_fallback ar t elements element"
    by (auto simp: sync_active [OF assms] audioEffects_fallback)
  have mu: "\<And>m. SetMuted m \<in> set ?fb \<longleftrightarrow> m = nullish (isMuted (props element)) False"
    by (auto simp: sync_active [OF assms] audioEffects_fallback)
  have gr: "\<And>v. SetGain v \<in> set ?gr \<Longrightarrow> v = effectiveVolume_webAudio ar t elements element"
    by (auto simp: sync_active [OF assms] audioEffects_graph attachSource_effects
          dest: updateNodes_effects split: if_splits)
  have wr: "SetGain (effectiveVolume_webAudio ar t elements element) \<in> set ?gr
              \<longleftrightarrow> audioNodes refs i \<noteq> None
                   \<or> (handleId el \<notin> audioSources refs \<and> canCreateSource c (handleId el))"
    by (simp add: sync_active [OF assms] audioEffects_graph attachSource_effects
          updateNodes_gain attachSource_nodes del: not_None_eq)
  from fb mu gr wr webAudio_volume_is_muted_fallback show ?thesis by blast
qed

theorem volume_written_by_both_paths_witness:
  "datasetElementId (handleOf 7 ''v'' 1 False) = Some ''v''
   \<and> find (\<lambda>e. elementId e = ''v'') [mutedClip ''v'' VIDEO] = Some (mutedClip ''v'' VIDEO)
   \<and> inWindow exactArith 1 (mutedClip ''v'' VIDEO)
   \<and> SetVolume 1 \<in> set (fst (syncMediaElement exactArith None 1 True [mutedClip ''v'' VIDEO]
         (handleOf 7 ''v'' 1 False) noAudioRefs))
   \<and> SetMuted True \<in> set (fst (syncMediaElement exactArith None 1 True [mutedClip ''v'' VIDEO]
         (handleOf 7 ''v'' 1 False) noAudioRefs))
   \<and> SetGain 0 \<in> set (fst (syncMediaElement exactArith (Some workingContext) 1 True [mutedClip ''v'' VIDEO]
         (handleOf 7 ''v'' 1 False) noAudioRefs))"
proof -
  have h1: "datasetElementId (handleOf 7 ''v'' 1 False) = Some ''v''"
    by (simp add: handleOf_def)
  have h2: "find (\<lambda>e. elementId e = ''v'') [mutedClip ''v'' VIDEO] = Some (mutedClip ''v'' VIDEO)"
    by (simp add: mutedClip_def clip_def)
  have h3: "inWindow exactArith 1 (mutedClip ''v'' VIDEO)"
    by (simp add: inWindow_def exactArith_def mutedClip_def clip_def)
  have v: "effectiveVolume_fallback exactArith 1 [mutedClip ''v'' VIDEO] (mutedClip ''v'' VIDEO) = 1"
      "effectiveVolume_webAudio exactArith 1 [mutedClip ''v'' VIDEO] (mutedClip ''v'' VIDEO) = 0"
      "nullish (isMuted (props (mutedClip ''v'' VIDEO))) False = True"
      "handleId (handleOf 7 ''v'' 1 False) \<notin> audioSources noAudioRefs"
      "canCreateSource workingContext (handleId (handleOf 7 ''v'' 1 False))"
    by (simp_all add: effectiveVolume_fallback_def effectiveVolume_webAudio_def
          applyDucking_def activeDuckingSource_def duckingCandidate_def mutedClip_def clip_def
          noProps_def nullish_def truthy_def handleOf_def noAudioRefs_def workingContext_def)
  from volume_written_by_both_paths [OF h1 h2 h3, where isPlaying = True and refs = noAudioRefs
      and c = workingContext] h1 h2 h3 v
  show ?thesis by simp
qed

text \<open>
  C2 as the specification states it fails for a muted element: the gain node receives 0
  and the handle's volume receives 1.
\<close>

theorem muted_volume_counterexample:
  "fst (syncMediaElement exactArith (Some workingContext) 1 True [mutedClip ''v'' VIDEO]
         (handleOf 7 ''v'' 1 False) noAudioRefs)
     = [CreateMediaElementSource 7, SetHighPassFrequency 0, SetLowPassFrequency 20000,
        SetGain 0, SetPlaybackRate 1]
   \<and> fst (syncMediaElement exactArith None 1 True [mutedClip ''v'' VIDEO]
         (handleOf 7 ''v'' 1 False) noAudioRefs)
     = [SetVolume 1, SetMuted True, SetPlaybackRate 1]"
  by (simp add: syncMediaElement_def mutedClip_def clip_def handleOf_def inWindow_def exactArith_def
        audioEffects_def attachSource_def updateNodes_def workingContext_def noAudioRefs_def
        noProps_def nullish_def orElse_def truthy_def effectiveVolume_webAudio_def
        effectiveVolume_fallback_def applyDucking_def activeDuckingSource_def
        duckingCandidate_def Let_def)

lemma find_filter_hd:
  "find P xs = (case filter P xs of [] \<Rightarrow> None | x # _ \<Rightarrow> Some x)"
  by (induction xs) simp_all

text \<open>
  C4. When other active audio or video elements duck, the effective volume of the
  victim is its own volume times the threshold (0.2 when absent) of the first of them
  in the order of the list, on both paths.
\<close>

theorem ducking_uses_first_source_only:
  assumes "filter (duckingCandidate ar t element) elements = d # ds"
  shows "effectiveVolume_webAudio ar t elements element
           = (if truthy (isMuted (props element)) then 0 else nullish (volume (props element)) 1)
             * nullish (duckingThreshold (props d)) 0.2
       \<and> effectiveVolume_fallback ar t elements element
           = nullish (volume (props element)) 1 * nullish (duckingThreshold (props d)) 0.2"
  using assms
  by (simp add: effectiveVolume_webAudio_def effectiveVolume_fallback_def applyDucking_def
        activeDuckingSource_def find_filter_hd Let_def)

text \<open>
  Two sources with thresholds 0.2 and 0.5 over a victim at full volume give 0.2.
\<close>

theorem ducking_uses_first_source_only_witness:
  "filter (duckingCandidate exactArith 5 (clip ''a'' AUDIO 0 10))
      [clip ''a'' AUDIO 0 10, ducker ''b'' VIDEO (Some 0.2), ducker ''c'' AUDIO (Some 0.5)]
     = [ducker ''b'' VIDEO (Some 0.2), ducker ''c'' AUDIO (Some 0.5)]
   \<and> effectiveVolume_webAudio exactArith 5
        [clip ''a'' AUDIO 0 10, ducker ''b'' VIDEO (Some 0.2), ducker ''c'' AUDIO (Some 0.5)]
        (clip ''a'' AUDIO 0 10) = 0.2
   \<and> effectiveVolume_fallback exactArith 5
        [clip ''a'' AUDIO 0 10, ducker ''b'' VIDEO (Some 0.2), ducker ''c'' AUDIO (Some 0.5)]
        (clip ''a'' AUDIO 0 10) = 0.2"
proof -
  have h: "filter (duckingCandidate exactArith 5 (clip ''a'' AUDIO 0 10))
      [clip ''a'' AUDIO 0 10, ducker ''b'' VIDEO (Some 0.2), ducker ''c'' AUDIO (Some 0.5)]
     = [ducker ''b'' VIDEO (Some 0.2), ducker ''c'' AUDIO (Some 0.5)]"
    by (simp add: duckingCandidate_def ducker_def clip_def noProps_def truthy_def inWindow_def exactArith_def)
  have v: "nullish (volume (props (clip ''a'' AUDIO 0 10))) 1 = (1::real)"
      "\<not> truthy (isMuted (props (clip ''a'' AUDIO 0 10)))"
      "nullish (duckingThreshold (props (ducker ''b'' VIDEO (Some 0.2)))) 0.2 = (0.2::real)"
    by (simp_all add: clip_def ducker_def noProps_def nullish_def truthy_def)
  from ducking_uses_first_source_only [OF h] h v show ?thesis by simp
qed

subsection \<open>A source that cannot be created\<close>

lemma sync_failed_attach:
  assumes "datasetElementId el = Some i"
    and "find (\<lambda>e. elementId e = i) elements = Some element"
    and "inWindow ar t element"
    and "handleId el \<notin> audioSources refs" and "\<not> canCreateSource c (handleId el)"
  shows "CreateMediaElementSource (handleId el)
           \<in> set (fst (syncMediaElement ar (Some c) t isPlaying elements el refs))"
    and "Warn \<in> set (fst (syncMediaElement ar (Some c) t isPlaying elements el refs))"
    and "SetVolume v \<notin> set (fst (syncMediaElement ar (Some c) t isPlaying elements el refs))"
    and "SetMuted m \<notin> set (fst (syncMediaElement ar (Some c) t isPlaying elements el refs))"
    and "audioSources (snd (syncMediaElement ar (Some c) t isPlaying elements el refs))
           = audioSources refs"
  using assms(4,5)
  by (auto simp: sync_active [OF assms(1,2,3)] audioEffects_graph attachSource_failure
        updateNodes_sources dest: updateNodes_effects)

text \<open>
  C3 (as amended). When \<open>createMediaElementSource\<close> fails for a handle, the failure is
  caught and the run goes on. Nothing records the failure: on every later run that finds
  the element active the creation is tried again and fails again with a warning, the
  handle stays out of the cache of sources, and neither the volume nor the mute flag of
  the handle is written.
\<close>

theorem failed_attach_is_retried_every_tick:
  assumes "find (\<lambda>e. elementId e = i) elements = Some element"
    and "\<not> canCreateSource c hid"
    and "hid \<notin> audioSources refs"
    and "\<forall>(t, isPlaying, el) \<in> set ticks.
           handleId el = hid \<and> datasetElementId el = Some i \<and> inWindow ar t element"
  shows "length (fst (syncTicks ar (Some c) elements ticks refs)) = length ticks
       \<and> (\<forall>fx \<in> set (fst (syncTicks ar (Some c) elements ticks refs)).
             CreateMediaElementSource hid \<in> set fx \<and> Warn \<in> set fx
             \<and> (\<forall>v. SetVolume v \<notin> set fx) \<and> (\<forall>m. SetMuted m \<notin> set fx))
       \<and> hid \<notin> audioSources (snd (syncTicks ar (Some c) elements ticks refs))"
  using assms(3,4)
proof (induction ticks arbitrary: refs)
  case Nil
  then show ?case by simp
next
  case (Cons tick ticks)
  obtain t isPlaying el where tick: "tick = (t, isPlaying, el)"
    by (cases tick) auto
  from Cons.prems(2) tick
  have el: "handleId el = hid" "datasetElementId el = Some i" "inWindow ar t element"
    by auto
  let ?r = "syncMediaElement ar (Some c) t isPlaying elements el refs"
  have fresh: "handleId el \<notin> audioSources refs" and fails: "\<not> canCreateSource c (handleId el)"
    using Cons.prems(1) assms(2) el(1) by simp_all
  note step = sync_failed_attach [OF el(2) assms(1) el(3) fresh fails, where isPlaying = isPlaying]
  have keep: "hid \<notin> audioSources (snd ?r)"
    using step(5) Cons.prems(1) by simp
  have rest: "\<forall>(t, isPlaying, el) \<in> set ticks.
           handleId el = hid \<and> datasetElementId el = Some i \<and> inWindow ar t element"
    using Cons.prems(2) by simp
  note ih = Cons.IH [OF keep rest]
  have unfold: "syncTicks ar (Some c) elements (tick # ticks) refs
          = (fst ?r # fst (syncTicks ar (Some c) elements ticks (snd ?r)),
             snd (syncTicks ar (Some c) elements ticks (snd ?r)))"
    by (simp add: tick split: prod.splits)
  show ?case
    unfolding unfold using ih step(1,2,3,4) el(1) by simp
qed

theorem failed_attach_is_retried_every_tick_witness:
  "find (\<lambda>e. elementId e = ''v'') [clip ''v'' VIDEO 0 10] = Some (clip ''v'' VIDEO 0 10)
   \<and> \<not> canCreateSource deafContext 7
   \<and> 7 \<notin> audioSources noAudioRefs
   \<and> list_all (\<lambda>(t, isPlaying, el).
         handleId el = 7 \<and> datasetElementId el = Some ''v'' \<and> inWindow exactArith t (clip ''v'' VIDEO 0 10))
       [(1, True, handleOf 7 ''v'' 1 False), (2, True, handleOf 7 ''v'' 2 False)]
   \<and> length (fst (syncTicks exactArith (Some deafContext) [clip ''v'' VIDEO 0 10]
        [(1, True, handleOf 7 ''v'' 1 False), (2, True, handleOf 7 ''v'' 2 False)] noAudioRefs)) = 2
   \<and> list_all (\<lambda>fx. CreateMediaElementSource 7 \<in> set fx \<and> Warn \<in> set fx)
       (fst (syncTicks exactArith (Some deafContext) [clip ''v'' VIDEO 0 10]
        [(1, True, handleOf 7 ''v'' 1 False), (2, True, handleOf 7 ''v'' 2 False)] noAudioRefs))"
proof -
  have h1: "find (\<lambda>e. elementId e = ''v'') [clip ''v'' VIDEO 0 10] = Some (clip ''v'' VIDEO 0 10)"
    by (simp add: clip_def)
  have h2: "\<not> canCreateSource deafContext 7"
    by (simp add: deafContext_def)
  have h3: "7 \<notin> audioSources noAudioRefs"
    by (simp add: noAudioRefs_def)
  have h4: "\<forall>(t, isPlaying, el) \<in> set [(1, True, handleOf 7 ''v'' 1 False), (2, True, handleOf 7 ''v'' 2 False)].
         handleId el = 7 \<and> datasetElementId el = Some ''v'' \<and> inWindow exactArith t (clip ''v'' VIDEO 0 10)"
    by (simp add: handleOf_def inWindow_def exactArith_def clip_def)
  from failed_attach_is_retried_every_tick [OF h1 h2 h3 h4] h1 h2 h3 h4
  show ?thesis unfolding list_all_iff by simp
qed

text \<open>
  C3 as the specification states it fails: the second of two runs on a handle that
  cannot be routed tries to create the source again.
\<close>

theorem failed_attach_retry_counterexample:
  "fst (syncTicks exactArith (Some deafContext) [clip ''v'' VIDEO 0 10]
        [(1, True, handleOf 7 ''v'' 1 False), (2, True, handleOf 7 ''v'' 2 False)] noAudioRefs)
     = [[CreateMediaElementSource 7, Warn, SetPlaybackRate 1],
        [CreateMediaElementSource 7, Warn, SetPlaybackRate 1]]"
  by (simp add: syncMediaElement_def clip_def handleOf_def inWindow_def exactArith_def audioEffects_def
        attachSource_def updateNodes_def deafContext_def noAudioRefs_def noProps_def
        nullish_def Let_def)

section \<open>Properties of the resize\<close>

text \<open>
  Without rotation the west handle moves \<open>x\<close> by half the pointer's travel, against its
  direction, and takes the whole travel off the width.
\<close>

lemma west_resize_unrotated:
  assumes "initR ini = 0" and "rectWidth rect \<noteq> 0"
  shows "resizeElement rect ini ''w'' start client
           = \<lparr>updX = initX ini - ((fst client - fst start) / rectWidth rect) * 100 / 2,
              updY = initY ini,
              updWidth = Some (max 1 (initW ini - ((fst client - fst start) / rectWidth rect) * 100)),
              updHeight = Some (max 1 (initH ini))\<rparr>"
  using assms by (simp add: resizeElement_def includesChar_def applyXChange_def Let_def field_simps)

text \<open>
  So the east edge follows the pointer by one and a half times its travel, as long as the
  width stays above its minimum of 1.
\<close>

lemma west_resize_east_edge_shift:
  assumes "initR ini = 0" and "rectWidth rect \<noteq> 0"
    and "1 \<le> initW ini - ((fst client - fst start) / rectWidth rect) * 100"
  shows "updX (resizeElement rect ini ''w'' start client)
           + nullish (updWidth (resizeElement rect ini ''w'' start client)) 0
         = initX ini + initW ini - 3 / 2 * (((fst client - fst start) / rectWidth rect) * 100)"
  using assms(3) by (simp add: west_resize_unrotated [OF assms(1,2)] nullish_def max_def)

text \<open>
  C1. In a container of 1000 by 500 pixels an element at \<open>x = 10\<close> of width 20, not
  rotated, has its east edge at 30. Dragging its west handle 100 pixels to the right
  gives \<open>x = 5\<close> and width 10: the east edge is at 15.
\<close>

theorem west_resize_moves_east_edge:
  "handleMouseMove westResize (Some \<lparr>rectWidth = 1000, rectHeight = 500\<rparr>) (100, 0)
     = Some (''v'', \<lparr>updX = 5, updY = 10, updWidth = Some 10, updHeight = Some 20\<rparr>)
   \<and> posX (clip ''v'' VIDEO 0 10) + elWidth (clip ''v'' VIDEO 0 10) = 30
   \<and> posX (applyUpdate \<lparr>updX = 5, updY = 10, updWidth = Some 10, updHeight = Some 20\<rparr>
              (clip ''v'' VIDEO 0 10))
     + elWidth (applyUpdate \<lparr>updX = 5, updY = 10, updWidth = Some 10, updHeight = Some 20\<rparr>
              (clip ''v'' VIDEO 0 10)) = 15"
  by (simp add: handleMouseMove_def westResize_def handleResizeMouseDown_def clip_def
        west_resize_unrotated applyUpdate_def nullish_def)

section \<open>Properties of the rendering\<close>

lemma set_map_filter: "set (List.map_filter f xs) = {y. \<exists>x \<in> set xs. f x = Some y}"
  by (induction xs) (auto simp: List.map_filter_simps split: option.splits)

lemma renderVisualElement_key:
  "renderVisualElement ar t selected el = Some d \<Longrightarrow> key d = elementId el"
  by (auto simp: renderVisualElement_def Let_def split: if_splits prod.splits)

text \<open>
  C10. The render function returns nothing exactly for an audio element and for an
  element outside its window \<open>[startTime, startTime + duration]\<close>, the sum being the one
  the host computes. So every descriptor of a frame belongs to an element that is not
  audio and is inside its window.
\<close>

theorem audio_and_inactive_elements_render_nothing:
  "(renderVisualElement ar t selected el = None
      \<longleftrightarrow> elementType el = AUDIO \<or> t < startTime el
           \<or> t > addF ar (startTime el) (duration el))
   \<and> (\<forall>d \<in> set (renderFrame ar t selected elements).
        \<exists>e \<in> set elements. key d = elementId e \<and> elementType e \<noteq> AUDIO
           \<and> startTime e \<le> t \<and> t \<le> addF ar (startTime e) (duration e))"
proof -
  have none: "\<And>e. renderVisualElement ar t selected e = None
      \<longleftrightarrow> elementType e = AUDIO \<or> t < startTime e \<or> t > addF ar (startTime e) (duration e)"
    by (auto simp: renderVisualElement_def Let_def split: prod.splits)
  have frame: "\<exists>e \<in> set elements. key d = elementId e \<and> elementType e \<noteq> AUDIO
           \<and> startTime e \<le> t \<and> t \<le> addF ar (startTime e) (duration e)"
    if "d \<in> set (renderFrame ar t selected elements)" for d
  proof -
    from that obtain e where e: "e \<in> set elements" "renderVisualElement ar t selected e = Some d"
      by (auto simp: renderFrame_def set_map_filter)
    from e(2) have "renderVisualElement ar t selected e \<noteq> None" by simp
    with none [of e] have "elementType e \<noteq> AUDIO" "startTime e \<le> t"
        "t \<le> addF ar (startTime e) (duration e)"
      by auto
    with e renderVisualElement_key [OF e(2)] show ?thesis by blast
  qed
  from none [of el] frame show ?thesis by blast
qed

text \<open>
  An audio clip inside its window and a video clip one second past its end give no
  descriptor; a video clip inside its window gives one.
\<close>

theorem audio_and_inactive_elements_render_nothing_witness:
  "renderVisualElement exactArith 5 None (clip ''a'' AUDIO 0 10) = None
   \<and> renderVisualElement exactArith 11 None (clip ''v'' VIDEO 0 10) = None
   \<and> renderVisualElement exactArith 5 None (clip ''v'' VIDEO 0 10) \<noteq> None
   \<and> renderFrame exactArith 5 None [clip ''a'' AUDIO 0 10] = []"
proof -
  have a: "elementType (clip ''a'' AUDIO 0 10) = AUDIO"
    by (simp add: clip_def)
  have b: "11 > addF exactArith (startTime (clip ''v'' VIDEO 0 10)) (duration (clip ''v'' VIDEO 0 10))"
    by (simp add: clip_def exactArith_def)
  have c: "\<not> (elementType (clip ''v'' VIDEO 0 10) = AUDIO \<or> 5 < startTime (clip ''v'' VIDEO 0 10)
       \<or> 5 > addF exactArith (startTime (clip ''v'' VIDEO 0 10)) (duration (clip ''v'' VIDEO 0 10)))"
    by (simp add: clip_def exactArith_def)
  have f: "renderFrame exactArith 5 None [clip ''a'' AUDIO 0 10] = []"
  proof (cases "renderFrame exactArith 5 None [clip ''a'' AUDIO 0 10]")
    case Nil
    then show ?thesis .
  next
    case (Cons d ds)
    then have "d \<in> set (renderFrame exactArith 5 None [clip ''a'' AUDIO 0 10])" by simp
    with audio_and_inactive_elements_render_nothing [where ar = exactArith and t = 5
        and selected = None and elements = "[clip ''a'' AUDIO 0 10]"] a
    show ?thesis by auto
  qed
  from audio_and_inactive_elements_render_nothing [where ar = exactArith and t = 5
      and selected = None and el = "clip ''a'' AUDIO 0 10" and elements = "[]"] a
  have r1: "renderVisualElement exactArith 5 None (clip ''a'' AUDIO 0 10) = None" by simp
  from audio_and_inactive_elements_render_nothing [where ar = exactArith and t = 11
      and selected = None and el = "clip ''v'' VIDEO 0 10" and elements = "[]"] b
  have r2: "renderVisualElement exactArith 11 None (clip ''v'' VIDEO 0 10) = None" by simp
  from audio_and_inactive_elements_render_nothing [where ar = exactArith and t = 5
      and selected = None and el = "clip ''v'' VIDEO 0 10" and elements = "[]"] c
  have r3: "renderVisualElement exactArith 5 None (clip ''v'' VIDEO 0 10) \<noteq> None" by simp
  from r1 r2 r3 f show ?thesis by simp
qed

subsection \<open>Overlapping transitions\<close>

lemma transitionIn_opacity_le_1:
  assumes "0 \<le> e" and "op \<le> 1"
  shows "fst (applyTransitionIn el e (op, T)) \<le> 1"
proof (cases "transitionIn el")
  case None
  with assms show ?thesis by (simp add: applyTransitionIn_def)
next
  case (Some tr)
  show ?thesis
  proof (cases "transitionType tr \<noteq> NoTransition \<and> e < transitionDuration tr")
    case True
    with assms have "e / transitionDuration tr \<le> 1" by simp
    with True Some assms show ?thesis
      by (cases "transitionType tr") (simp_all add: applyTransitionIn_def Let_def)
  next
    case False
    with Some assms show ?thesis by (auto simp: applyTransitionIn_def)
  qed
qed

lemma transitionOut_opacity:
  assumes "0 \<le> r" and "op \<le> 1"
  shows "fst (applyTransitionOut el r (op, T))
           = min op (fst (applyTransitionOut el r (1, EmptyTransform)))"
proof (cases "transitionOut el")
  case None
  with assms show ?thesis by (simp add: applyTransitionOut_def)
next
  case (Some tr)
  show ?thesis
  proof (cases "transitionType tr \<noteq> NoTransition \<and> r < transitionDuration tr")
    case True
    with assms have "r / transitionDuration tr \<le> 1" by simp
    with True Some assms show ?thesis
      by (cases "transitionType tr") (simp_all add: applyTransitionOut_def Let_def)
  next
    case False
    with Some assms show ?thesis by (auto simp: applyTransitionOut_def)
  qed
qed

lemma transitionOut_transform_set:
  assumes "transitionOut el = Some tr" and "r < transitionDuration tr"
    and "transitionType tr \<in> {ZoomIn, ZoomOut, WipeLeft, WipeRight, WipeUp, WipeDown}"
  shows "snd (applyTransitionOut el r (op, T))
           = snd (applyTransitionOut el r (1, EmptyTransform))"
  using assms by (auto simp: applyTransitionOut_def Let_def)

lemma transitionOut_transform_kept:
  assumes "transitionOut el = Some tr"
    and "transitionType tr \<in> {Fade, Dissolve, NoTransition}"
  shows "snd (applyTransitionOut el r (op, T)) = T"
  using assms by (auto simp: applyTransitionOut_def Let_def)

lemma renderVisualElement_Some:
  assumes "renderVisualElement ar t selected el = Some d"
  shows "startTime el \<le> t" and "t \<le> addF ar (startTime el) (duration el)"
    and "styleOpacity d
           = fst (applyTransitionOut el (subF ar (addF ar (startTime el) (duration el)) t)
               (applyTransitionIn el (subF ar t (startTime el)) (1, EmptyTransform)))"
    and "styleTransition d
           = snd (applyTransitionOut el (subF ar (addF ar (startTime el) (duration el)) t)
               (applyTransitionIn el (subF ar t (startTime el)) (1, EmptyTransform)))"
  using assms
  by (auto simp: renderVisualElement_def Let_def split: if_splits prod.splits)

lemma signExact_exactArith: "signExact exactArith"
  by (simp add: signExact_def exactArith_def)

text \<open>
  C7 (as amended). When both windows hold for a rendered element, the opacity is the
  minimum of the opacities the two branches compute on their own. The transform is the
  one of the out branch when the out transition is a zoom or a wipe; a fade or dissolve
  out computes no transform, and the transform of the in branch stays. The elapsed and
  the remaining time are the differences the host computes, which are not negative for
  a rendered element.
\<close>

theorem overlapping_transitions:
  assumes "signExact ar"
    and "renderVisualElement ar t selected el = Some d"
    and "transitionIn el = Some tin" and "transitionOut el = Some tout"
    and "subF ar t (startTime el) < transitionDuration tin"
    and "subF ar (addF ar (startTime el) (duration el)) t < transitionDuration tout"
  shows "styleOpacity d
           = min (fst (applyTransitionIn el (subF ar t (startTime el)) (1, EmptyTransform)))
                 (fst (applyTransitionOut el (subF ar (addF ar (startTime el) (duration el)) t)
                         (1, EmptyTransform)))
       \<and> (transitionType tout \<in> {ZoomIn, ZoomOut, WipeLeft, WipeRight, WipeUp, WipeDown}
            \<longrightarrow> styleTransition d
                  = snd (applyTransitionOut el (subF ar (addF ar (startTime el) (duration el)) t)
                          (1, EmptyTransform)))
       \<and> (transitionType tout \<in> {Fade, Dissolve, NoTransition}
            \<longrightarrow> styleTransition d
                  = snd (applyTransitionIn el (subF ar t (startTime el)) (1, EmptyTransform)))"
proof -
  let ?e = "subF ar t (startTime el)"
  let ?r = "subF ar (addF ar (startTime el) (duration el)) t"
  obtain op T where inb: "applyTransitionIn el ?e (1, EmptyTransform) = (op, T)"
    by (cases "applyTransitionIn el ?e (1, EmptyTransform)") auto
  note rv = renderVisualElement_Some [OF assms(2)]
  from rv(1) assms(1) have e0: "0 \<le> ?e" by (simp add: signExact_def)
  from rv(2) assms(1) have r0: "0 \<le> ?r" by (simp add: signExact_def)
  from transitionIn_opacity_le_1 [OF e0, of 1 el EmptyTransform] inb have op1: "op \<le> 1"
    by simp
  have opacity: "styleOpacity d = min op (fst (applyTransitionOut el ?r (1, EmptyTransform)))"
    using rv(3) inb transitionOut_opacity [OF r0 op1] by simp
  have sets: "styleTransition d = snd (applyTransitionOut el ?r (1, EmptyTransform))"
    if "transitionType tout \<in> {ZoomIn, ZoomOut, WipeLeft, WipeRight, WipeUp, WipeDown}"
    using rv(4) inb transitionOut_transform_set [OF assms(4,6) that] by simp
  have kept: "styleTransition d = T"
    if "transitionType tout \<in> {Fade, Dissolve, NoTransition}"
    using rv(4) inb transitionOut_transform_kept [OF assms(4) that] by simp
  from opacity sets kept inb show ?thesis by simp
qed

theorem overlapping_transitions_witness:
  "signExact exactArith
   \<and> renderVisualElement exactArith 2 None (overlapClip ZoomIn WipeLeft)
     = Some \<lparr>key = ''o'', styleLeft = 10, styleTop = 10, styleWidth = 20, styleHeight = 20,
          styleRotate = 0, styleTransition = TranslateX (-80), styleScaleX = False,
          styleScaleY = False, styleZIndex = 10, styleSelected = False, styleOpacity = 0.2\<rparr>
   \<and> transitionIn (overlapClip ZoomIn WipeLeft)
       = Some \<lparr>transitionType = ZoomIn, transitionDuration = 10\<rparr>
   \<and> transitionOut (overlapClip ZoomIn WipeLeft)
       = Some \<lparr>transitionType = WipeLeft, transitionDuration = 10\<rparr>
   \<and> subF exactArith 2 (startTime (overlapClip ZoomIn WipeLeft)) < 10
   \<and> subF exactArith (addF exactArith (startTime (overlapClip ZoomIn WipeLeft))
          (duration (overlapClip ZoomIn WipeLeft))) 2 < 10
   \<and> min (fst (applyTransitionIn (overlapClip ZoomIn WipeLeft) 2 (1, EmptyTransform)))
          (fst (applyTransitionOut (overlapClip ZoomIn WipeLeft) 2 (1, EmptyTransform))) = 0.2
   \<and> snd (applyTransitionOut (overlapClip ZoomIn WipeLeft) 2 (1, EmptyTransform))
       = TranslateX (-80)"
proof -
  let ?el = "overlapClip ZoomIn WipeLeft"
  let ?d = "\<lparr>key = ''o'', styleLeft = 10, styleTop = 10, styleWidth = 20, styleHeight = 20,
          styleRotate = 0, styleTransition = TranslateX (-80), styleScaleX = False,
          styleScaleY = False, styleZIndex = 10, styleSelected = False, styleOpacity = 0.2\<rparr>"
  have h1: "renderVisualElement exactArith 2 None ?el = Some ?d"
    by (simp add: renderVisualElement_def exactArith_def overlapClip_def clip_def
          applyTransitionIn_def applyTransitionOut_def truthy_def nullish_def Let_def)
  have h2: "transitionIn ?el = Some \<lparr>transitionType = ZoomIn, transitionDuration = 10\<rparr>"
    by (simp add: overlapClip_def clip_def)
  have h3: "transitionOut ?el = Some \<lparr>transitionType = WipeLeft, transitionDuration = 10\<rparr>"
    by (simp add: overlapClip_def clip_def)
  have h4: "subF exactArith 2 (startTime ?el)
              < transitionDuration \<lparr>transitionType = ZoomIn, transitionDuration = 10\<rparr>"
    by (simp add: overlapClip_def clip_def exactArith_def)
  have h5: "subF exactArith (addF exactArith (startTime ?el) (duration ?el)) 2
              < transitionDuration \<lparr>transitionType = WipeLeft, transitionDuration = 10\<rparr>"
    by (simp add: overlapClip_def clip_def exactArith_def)
  have t: "subF exactArith 2 (startTime ?el) = 2"
      "subF exactArith (addF exactArith (startTime ?el) (duration ?el)) 2 = 2"
    by (simp_all add: overlapClip_def clip_def exactArith_def)
  from overlapping_transitions [OF signExact_exactArith h1 h2 h3 h4 h5]
    signExact_exactArith h1 h2 h3 t
  show ?thesis by simp
qed

text \<open>
  C7 as the specification states it fails for a wipe in and a fade out: the emitted
  transform is the translation of the in branch, and the out branch computes none.
\<close>

theorem overlap_transform_counterexample:
  "subF exactArith 2 (startTime (overlapClip WipeLeft Fade)) < 10
   \<and> subF exactArith (addF exactArith (startTime (overlapClip WipeLeft Fade))
          (duration (overlapClip WipeLeft Fade))) 2 < 10
   \<and> map_option styleTransition (renderVisualElement exactArith 2 None (overlapClip WipeLeft Fade))
       = Some (TranslateX 80)
   \<and> snd (applyTransitionOut (overlapClip WipeLeft Fade) 2 (1, EmptyTransform)) = EmptyTransform
   \<and> map_option styleTransition (renderVisualElement exactArith 2 None (overlapClip WipeLeft Fade))
       \<noteq> Some (snd (applyTransitionOut (overlapClip WipeLeft Fade) 2 (1, EmptyTransform)))"
  by (simp add: renderVisualElement_def exactArith_def overlapClip_def clip_def applyTransitionIn_def
        applyTransitionOut_def Let_def)

end
